theory Spec2Isabelle
  imports Complex_Main
begin

section \<open>Values of the program\<close>

text \<open>
  The module \<^verbatim>\<open>pubplots.py\<close> works on Python numbers (\<^verbatim>\<open>int\<close> and \<^verbatim>\<open>float\<close>) and on
  tuples of them. A Python \<^verbatim>\<open>int\<close> is unbounded, so it is an \<open>int\<close> here. A Python
  \<^verbatim>\<open>float\<close> is an IEEE 754 binary64 number: a finite one is given by its real value,
  and there are the two infinities (\<open>Infinity True\<close> is the negative one) and NaN. The
  two zeros of IEEE 754 are one value here, as they are under Python's \<^verbatim>\<open>==\<close>; neither
  \<^verbatim>\<open>*\<close> nor \<^verbatim>\<open>/\<close> gives results that differ by more than the sign of a zero on them.
\<close>

datatype pyfloat = Finite real | Infinity bool | NaN

datatype pynum = PInt int | Float pyfloat

abbreviation PFloat :: "real \<Rightarrow> pynum" where
  "PFloat x \<equiv> Float (Finite x)"

datatype pyvalue = Num pynum | Tuple "pyvalue list"

datatype exn = TypeError | OverflowError | MemoryError | Exception string

section \<open>Rounding to a double\<close>

text \<open>
  The number of binary digits of a natural number (Python's \<^verbatim>\<open>int.bit_length\<close>).
\<close>

fun bit_length :: "nat \<Rightarrow> nat" where
  "bit_length n = (if n = 0 then 0 else Suc (bit_length (n div 2)))"

declare bit_length.simps [simp del]

text \<open>
  The binary exponent of a positive real \<open>a\<close>: the integer \<open>k\<close> with
  \<open>2 ^ k \<le> a < 2 ^ (k + 1)\<close> (lemma \<open>exponent_bounds\<close>), computed from the digits of
  \<open>\<lfloor>a\<rfloor>\<close> when \<open>1 \<le> a\<close> and of \<open>\<lceil>1 / a\<rceil> - 1\<close> otherwise.
\<close>

definition exponent :: "real \<Rightarrow> int" where
  "exponent a =
     (if 1 \<le> a then int (bit_length (nat \<lfloor>a\<rfloor>)) - 1
      else - int (bit_length (nat (\<lceil>1 / a\<rceil> - 1))))"

text \<open>Rounding to the nearest integer, a tie going to the even one.\<close>

definition round_half_even :: "real \<Rightarrow> int" where
  "round_half_even t =
     (let f = \<lfloor>t\<rfloor>; d = t - of_int f
      in if d < 1 / 2 then f else if 1 / 2 < d then f + 1 else if even f then f else f + 1)"

text \<open>
  The magnitude \<open>a \<ge> 0\<close> rounded to 53 significant binary digits, ties to even, on the
  grid of the doubles: the spacing is \<open>2 ^ (k - 52)\<close> in the binade of exponent \<open>k\<close> and
  \<open>2 ^ - 1074\<close> below the normal range. The exponent is not bounded above here;
  \<open>round_double\<close> turns a result from \<open>2 ^ 1024\<close> on into an infinity.
\<close>

definition round_mag :: "real \<Rightarrow> real" where
  "round_mag a =
     (if a = 0 then 0
      else let e = max (exponent a - 52) (- 1074)
           in of_int (round_half_even (a / 2 powi e)) * 2 powi e)"

definition round_double :: "real \<Rightarrow> pyfloat" where
  "round_double x =
     (let r = round_mag \<bar>x\<bar>
      in if 2 ^ 1024 \<le> r then Infinity (x < 0) else Finite (if x < 0 then - r else r))"

section \<open>Arithmetic of Python numbers\<close>

text \<open>
  The conversion of an int to a float, which Python makes before it multiplies or
  divides an int and a float: the nearest double, ties to even. Python raises
  \<^verbatim>\<open>OverflowError\<close> (int too large to convert to float) where the rounded value does not
  fit a double; \<open>int_too_large\<close> says when.
\<close>

definition to_float :: "int \<Rightarrow> pyfloat" where
  "to_float i = round_double (of_int i)"

definition int_too_large :: "int \<Rightarrow> bool" where
  "int_too_large i = (2 ^ 1024 \<le> round_mag \<bar>of_int i\<bar>)"

text \<open>
  The product of two floats: the real product rounded to a double (an infinity on
  overflow, no exception), with the IEEE 754 rules for infinities and NaN.
\<close>

fun float_mul :: "pyfloat \<Rightarrow> pyfloat \<Rightarrow> pyfloat" where
  "float_mul (Finite x) (Finite y) = round_double (x * y)"
| "float_mul (Finite x) (Infinity t) = (if x = 0 then NaN else Infinity ((x < 0) \<noteq> t))"
| "float_mul (Infinity s) (Finite y) = (if y = 0 then NaN else Infinity (s \<noteq> (y < 0)))"
| "float_mul (Infinity s) (Infinity t) = Infinity (s \<noteq> t)"
| "float_mul NaN y = NaN"
| "float_mul x NaN = NaN"

text \<open>
  Python's \<^verbatim>\<open>*\<close> on two numbers. Int times int is the exact int. With a float among the
  two, an int operand is converted first and the floats are multiplied. \<open>mul_overflows\<close>
  says when the conversion raises \<^verbatim>\<open>OverflowError\<close>; \<open>num_mul\<close> is the product
  otherwise.
\<close>

fun mul_overflows :: "pynum \<Rightarrow> pynum \<Rightarrow> bool" where
  "mul_overflows (PInt a) (PInt b) = False"
| "mul_overflows (PInt a) (Float y) = int_too_large a"
| "mul_overflows (Float x) (PInt b) = int_too_large b"
| "mul_overflows (Float x) (Float y) = False"

fun num_mul :: "pynum \<Rightarrow> pynum \<Rightarrow> pynum" where
  "num_mul (PInt a) (PInt b) = PInt (a * b)"
| "num_mul (PInt a) (Float y) = Float (float_mul (to_float a) y)"
| "num_mul (Float x) (PInt b) = Float (float_mul x (to_float b))"
| "num_mul (Float x) (Float y) = Float (float_mul x y)"

text \<open>
  \<^verbatim>\<open>sys.maxsize\<close> of a 64-bit build, and a tuple times an int. The count must fit an
  index (\<^verbatim>\<open>OverflowError\<close> otherwise); a count that is not positive, or an empty tuple,
  gives the empty tuple; a result longer than \<^verbatim>\<open>sys.maxsize\<close> is refused with
  \<^verbatim>\<open>MemoryError\<close>. The interpreter raises \<^verbatim>\<open>MemoryError\<close> as well when the machine
  cannot hold a result that passes these checks; the memory of the machine is not part
  of this development.
\<close>

definition maxsize :: int where
  "maxsize = 2 ^ 63 - 1"

definition tuple_repeat :: "pyvalue list \<Rightarrow> int \<Rightarrow> exn + pyvalue" where
  "tuple_repeat xs n =
     (if n < - maxsize - 1 \<or> maxsize < n then Inl OverflowError
      else if xs = [] \<or> n \<le> 0 then Inr (Tuple [])
      else if maxsize < int (length xs) * n then Inl MemoryError
      else Inr (Tuple (concat (replicate (nat n) xs))))"

text \<open>
  Python's \<^verbatim>\<open>*\<close> on the values of this program. A tuple times an int repeats the tuple;
  a tuple times a float, and a tuple times a tuple, raise \<^verbatim>\<open>TypeError\<close>.
\<close>

fun py_mul :: "pyvalue \<Rightarrow> pyvalue \<Rightarrow> exn + pyvalue" where
  "py_mul (Num a) (Num b) =
     (if mul_overflows a b then Inl OverflowError else Inr (Num (num_mul a b)))"
| "py_mul (Tuple xs) (Num (PInt n)) = tuple_repeat xs n"
| "py_mul (Num (PInt n)) (Tuple xs) = tuple_repeat xs n"
| "py_mul (Tuple xs) (Num (Float y)) = Inl TypeError"
| "py_mul (Num (Float x)) (Tuple ys) = Inl TypeError"
| "py_mul (Tuple xs) (Tuple ys) = Inl TypeError"

section \<open>The program state\<close>

text \<open>
  Two pieces of state are touched by the module: the context variable
  \<^verbatim>\<open>_scaling_ctx = ContextVar("scaling", default=1.0)\<close> and matplotlib's process-wide
  \<^verbatim>\<open>rcParams\<close>. A context variable either has no value in the current context
  (\<open>None\<close>) or holds one.
\<close>

datatype rc_value =
    RcStr string
  | RcStrList "string list"
  | RcNum pynum
  | RcBool bool

type_synonym rc_store = "string \<rightharpoonup> rc_value"

record state =
  scaling_ctx :: "pyvalue option"
  rcParams :: rc_store

text \<open>\<^verbatim>\<open>_scaling_ctx.get()\<close>: the value in the current context, or the default \<^verbatim>\<open>1.0\<close>.\<close>

definition ctx_get :: "state \<Rightarrow> pyvalue" where
  "ctx_get s = (case scaling_ctx s of None \<Rightarrow> Num (PFloat 1) | Some v \<Rightarrow> v)"

text \<open>
  \<^verbatim>\<open>_scaling_ctx.set(v)\<close> returns a token that remembers what the variable held before
  (nothing, or a value); \<^verbatim>\<open>_scaling_ctx.reset(token)\<close> puts that back.
\<close>

datatype token = Token (old_value: "pyvalue option")

definition ctx_set :: "pyvalue \<Rightarrow> state \<Rightarrow> token \<times> state" where
  "ctx_set v s = (Token (scaling_ctx s), s\<lparr>scaling_ctx := Some v\<rparr>)"

definition ctx_reset :: "token \<Rightarrow> state \<Rightarrow> state" where
  "ctx_reset tok s = s\<lparr>scaling_ctx := old_value tok\<rparr>"

section \<open>\<^verbatim>\<open>scale\<close>\<close>

text \<open>
  The generator expression \<^verbatim>\<open>tuple(v * scaling_factor for v in values)\<close>: the products
  are formed from left to right and the first exception ends the evaluation.
\<close>

fun products :: "pyvalue list \<Rightarrow> pyvalue \<Rightarrow> exn + pyvalue list" where
  "products [] f = Inr []"
| "products (v # vs) f =
     (case py_mul v f of
        Inl e \<Rightarrow> Inl e
      | Inr w \<Rightarrow> (case products vs f of Inl e \<Rightarrow> Inl e | Inr ws \<Rightarrow> Inr (w # ws)))"

definition tuple_of :: "exn + pyvalue list \<Rightarrow> exn + pyvalue" where
  "tuple_of r = (case r of Inl e \<Rightarrow> Inl e | Inr ws \<Rightarrow> Inr (Tuple ws))"

text \<open>
  \<^verbatim>\<open>scale(*values, scaling_factor=None)\<close>, lines 38 to 48. The positional arguments are
  the list \<open>values\<close>; \<open>scaling_factor\<close> is \<open>None\<close> when the keyword is left out, and
  then the factor is read from the context variable.
\<close>

definition scale :: "pyvalue list \<Rightarrow> pyvalue option \<Rightarrow> state \<Rightarrow> exn + pyvalue" where
  "scale values scaling_factor s =
     (let scaling_factor' =
            (case scaling_factor of None \<Rightarrow> ctx_get s | Some f \<Rightarrow> f)
      in if length values = 1 then
           (case values ! 0 of
              Tuple vs \<Rightarrow> tuple_of (products vs scaling_factor')
            | Num x \<Rightarrow> py_mul (Num x) scaling_factor')
         else tuple_of (products values scaling_factor'))"

section \<open>\<^verbatim>\<open>get_rc_params\<close>\<close>

text \<open>
  The quotient of two floats: the real quotient rounded to a double, with the IEEE 754
  rules for infinities and NaN. Python raises \<^verbatim>\<open>ZeroDivisionError\<close> on a zero divisor.
\<close>

fun float_div :: "pyfloat \<Rightarrow> pyfloat \<Rightarrow> pyfloat" where
  "float_div (Finite x) (Finite y) = round_double (x / y)"
| "float_div (Finite x) (Infinity t) = Finite 0"
| "float_div (Infinity s) (Finite y) = Infinity (s \<noteq> (y < 0))"
| "float_div (Infinity s) (Infinity t) = NaN"
| "float_div NaN y = NaN"
| "float_div x NaN = NaN"

text \<open>
  Python's true division \<^verbatim>\<open>/\<close> on numbers gives a float: for two ints the exact
  quotient rounded to a double, otherwise the quotient of the floats after an int
  operand is converted. It raises \<^verbatim>\<open>ZeroDivisionError\<close> on a zero divisor and
  \<^verbatim>\<open>OverflowError\<close> on an int too large to convert; the two divisions of the program
  divide \<^verbatim>\<open>300\<close> by \<^verbatim>\<open>96\<close> and \<^verbatim>\<open>150\<close> by \<^verbatim>\<open>scaling\<close>, which is 3.125 or 1.0, so
  neither branch exists in \<^verbatim>\<open>get_rc_params\<close>. Likewise the ints \<^verbatim>\<open>5\<close>, \<^verbatim>\<open>6\<close> and \<^verbatim>\<open>7\<close>
  that it multiplies by \<^verbatim>\<open>scaling\<close> convert exactly (lemma \<open>small_int_converts\<close>).
\<close>

fun num_truediv :: "pynum \<Rightarrow> pynum \<Rightarrow> pynum" where
  "num_truediv (PInt a) (PInt b) = Float (round_double (of_int a / of_int b))"
| "num_truediv (PInt a) (Float y) = Float (float_div (to_float a) y)"
| "num_truediv (Float x) (PInt b) = Float (float_div x (to_float b))"
| "num_truediv (Float x) (Float y) = Float (float_div x y)"

type_synonym rc_params = "(string \<times> rc_value) list"

text \<open>
  \<^verbatim>\<open>get_rc_params(destination)\<close>, lines 104 to 133. The dictionary literal is the list of
  its items in the order they are written; the closure \<^verbatim>\<open>_scale\<close> is the function that
  calls \<open>scale\<close> with the factor of this destination.
\<close>

definition get_rc_params ::
  "string \<Rightarrow> rc_params \<times> (pyvalue list \<Rightarrow> state \<Rightarrow> exn + pyvalue)" where
  "get_rc_params destination =
     (let scaling =
            (if destination = ''figma'' then num_truediv (PInt 300) (PInt 96)
             else PFloat 1);
          rc_params =
            [(''font.family'', RcStr ''sans-serif''),
             (''font.sans-serif'', RcStrList [''Arial'']),
             (''font.size'', RcNum (num_mul (PInt 6) scaling)),
             (''axes.titlesize'', RcNum (num_mul (PInt 6) scaling)),
             (''axes.labelsize'', RcNum (num_mul (PInt 6) scaling)),
             (''xtick.labelsize'', RcNum (num_mul (PInt 5) scaling)),
             (''ytick.labelsize'', RcNum (num_mul (PInt 5) scaling)),
             (''legend.fontsize'', RcNum (num_mul (PInt 6) scaling)),
             (''figure.titlesize'', RcNum (num_mul (PInt 7) scaling)),
             (''figure.labelsize'', RcNum (num_mul (PInt 7) scaling)),
             (''figure.dpi'', RcNum (num_truediv (PInt 150) scaling)),
             (''figure.autolayout'', RcBool True),
             (''savefig.dpi'', RcNum (PInt 300)),
             (''savefig.format'', RcStr ''svg''),
             (''svg.fonttype'', RcStr ''none''),
             (''pdf.fonttype'', RcNum (PInt 42))];
          scale' = (\<lambda>values. scale values (Some (Num scaling)))
      in (rc_params, scale'))"

section \<open>\<^verbatim>\<open>destination\<close>\<close>

text \<open>
  A caller's block under \<^verbatim>\<open>with\<close>: it runs on the state and either completes (\<open>Inr\<close>,
  with whatever it computed) or lets an exception propagate (\<open>Inl\<close>); either way it may
  have changed the state before.
\<close>

type_synonym 'a block = "state \<Rightarrow> (exn + 'a) \<times> state"

text \<open>
  Modelled from the spec: \<^verbatim>\<open>mpl.rc_context\<close> belongs to matplotlib, the external
  collaborator of section 6 of the specification (a global dictionary-like store that
  accepts the documented setting keys, and a scoped-override mechanism for it). On entry
  the store is copied and updated with the given items; on every exit of the block, by
  completion or by exception, the copy is written back.
\<close>

definition rc_context :: "rc_params \<Rightarrow> 'a block \<Rightarrow> 'a block" where
  "rc_context params body s =
     (let orig = rcParams s;
          s1 = s\<lparr>rcParams := rcParams s ++ map_of params\<rparr>
      in case body s1 of
           (Inl e, s2) \<Rightarrow> (Inl e, s2\<lparr>rcParams := orig\<rparr>)
         | (Inr a, s2) \<Rightarrow> (Inr a, s2\<lparr>rcParams := orig\<rparr>))"

text \<open>
  \<^verbatim>\<open>with destination(dest): body\<close>, lines 168 to 175. Line 170 stands before the
  \<^verbatim>\<open>try\<close>: an exception of \<^verbatim>\<open>scaler(1.0)\<close> would propagate with nothing set. The
  \<^verbatim>\<open>finally\<close> clause runs on both outcomes of the \<^verbatim>\<open>with mpl.rc_context(params)\<close>
  statement, and an exception goes on to the caller after it.
\<close>

definition destination :: "string \<Rightarrow> 'a block \<Rightarrow> 'a block" where
  "destination dest body s =
     (let (params, scaler) = get_rc_params dest
      in case scaler [Num (PFloat 1)] s of
           Inl e \<Rightarrow> (Inl e, s)
         | Inr v \<Rightarrow>
             (let (token, s1) = ctx_set v s
              in case rc_context params body s1 of
                   (Inl e, s2) \<Rightarrow> (Inl e, ctx_reset token s2)
                 | (Inr a, s2) \<Rightarrow> (Inr a, ctx_reset token s2)))"

text \<open>The default of the parameter: \<^verbatim>\<open>destination: str = "default"\<close>.\<close>

definition destination_default :: string where
  "destination_default = ''default''"

section \<open>Blocks of the scenarios\<close>

text \<open>
  The value of the local variable \<^verbatim>\<open>scaling\<close> of \<^verbatim>\<open>get_rc_params\<close> (lines 104 to
  107) with the division carried out; \<open>get_rc_params_scaler\<close> below ties it to the
  closure that \<open>get_rc_params\<close> returns.
\<close>

definition factor_of :: "string \<Rightarrow> pynum" where
  "factor_of d = (if d = ''figma'' then PFloat (300 / 96) else PFloat 1)"

text \<open>
  The block \<^verbatim>\<open>r = scale(x)\<close>: it calls \<open>scale\<close> on one number with no explicit factor,
  keeps what the call gave (a value or an exception, as data) and leaves the state alone.
\<close>

definition scale_block :: "pynum \<Rightarrow> (exn + pyvalue) block" where
  "scale_block x s = (Inr (scale [Num x] None s), s)"

text \<open>
  The block of the outer scope in the nesting scenario:
  \<^verbatim>\<open>with destination("default"): inner = scale(1.0)\<close> followed by
  \<^verbatim>\<open>after = scale(1.0)\<close>. An exception out of the inner statement would end the block.
\<close>

definition nested_block :: "((exn + pyvalue) \<times> (exn + pyvalue)) block" where
  "nested_block s =
     (case destination ''default'' (scale_block (PFloat 1)) s of
        (Inl e, s') \<Rightarrow> (Inl e, s')
      | (Inr inner, s') \<Rightarrow> (Inr (inner, scale [Num (PFloat 1)] None s'), s'))"

text \<open>
  A block that overwrites the context variable, empties \<^verbatim>\<open>rcParams\<close> and then raises.
\<close>

definition clobbering_block :: "unit block" where
  "clobbering_block s =
     (Inl (Exception ''boom''), s\<lparr>scaling_ctx := Some (Num (PInt 7)), rcParams := Map.empty\<rparr>)"

section \<open>Facts about rounding\<close>

lemma bit_length_upper: "n < 2 ^ bit_length n"
proof (induction n rule: bit_length.induct)
  case (1 n)
  show ?case
  proof (cases "n = 0")
    case True
    then show ?thesis by (simp add: bit_length.simps)
  next
    case False
    with 1 have "n div 2 < 2 ^ bit_length (n div 2)" by simp
    then have "n < 2 * 2 ^ bit_length (n div 2)" by linarith
    with False show ?thesis by (simp add: bit_length.simps [of n])
  qed
qed

lemma bit_length_lower: "0 < n \<Longrightarrow> 2 ^ (bit_length n - 1) \<le> n"
proof (induction n rule: bit_length.induct)
  case (1 n)
  show ?case
  proof (cases "n div 2 = 0")
    case True
    with 1(2) have "n = 1" by linarith
    then show ?thesis by (simp add: bit_length.simps [of "Suc 0"] bit_length.simps [of 0])
  next
    case False
    with 1 have ih: "2 ^ (bit_length (n div 2) - 1) \<le> n div 2" by simp
    from False have "0 < bit_length (n div 2)" by (simp add: bit_length.simps [of "n div 2"])
    then have "2 ^ bit_length (n div 2) = 2 * (2::nat) ^ (bit_length (n div 2) - 1)"
      by (cases "bit_length (n div 2)") simp_all
    with ih have "2 ^ bit_length (n div 2) \<le> n" by linarith
    with 1(2) show ?thesis by (simp add: bit_length.simps [of n])
  qed
qed

text \<open>The exponent is the one it should be: \<open>2 ^ k \<le> a < 2 ^ (k + 1)\<close>.\<close>

lemma exponent_bounds:
  assumes "0 < a"
  shows "2 powi exponent a \<le> a \<and> a < 2 powi (exponent a + 1)"
proof (cases "1 \<le> a")
  case True
  define n where "n = nat \<lfloor>a\<rfloor>"
  from True have "1 \<le> \<lfloor>a\<rfloor>" by linarith
  then have rn: "real n = of_int \<lfloor>a\<rfloor>" and n0: "0 < n"
    unfolding n_def by simp_all
  have "real n \<le> a" "a < real n + 1"
    unfolding rn by linarith+
  with n0 have n: "0 < n" "real n \<le> a" "a < real n + 1"
    by simp_all
  from True have e: "exponent a = int (bit_length n) - 1"
    by (simp add: exponent_def n_def)
  from n(1) have bl: "0 < bit_length n" by (simp add: bit_length.simps [of n])
  have "(2::real) powi (int (bit_length n) - 1) = 2 ^ (bit_length n - 1)"
    using bl by (simp add: power_int_def nat_diff_distrib')
  also have "\<dots> \<le> real n"
    using bit_length_lower [OF n(1)] by (metis of_nat_le_iff of_nat_numeral of_nat_power)
  finally have lo: "2 powi exponent a \<le> a" using n(2) e by simp
  have "real n + 1 \<le> 2 ^ bit_length n"
    using bit_length_upper [of n]
    by (metis Suc_leI of_nat_Suc of_nat_le_iff of_nat_numeral of_nat_power add.commute)
  with n(3) have "a < 2 powi (exponent a + 1)" using e by simp
  with lo show ?thesis by simp
next
  case False
  define y where "y = 1 / a"
  define n where "n = nat (\<lceil>y\<rceil> - 1)"
  from False assms have y: "1 < y" by (simp add: y_def)
  then have "2 \<le> \<lceil>y\<rceil>" by linarith
  then have rn: "real n = of_int \<lceil>y\<rceil> - 1" and n0: "0 < n"
    unfolding n_def by simp_all
  have "real n < y" "y \<le> real n + 1"
    unfolding rn by linarith+
  with n0 have n: "0 < n" "real n < y" "y \<le> real n + 1"
    by simp_all
  from False have e: "exponent a = - int (bit_length n)"
    by (simp add: exponent_def n_def y_def)
  have a: "a = 1 / y" using assms by (simp add: y_def)
  from n(1) have bl: "0 < bit_length n" by (simp add: bit_length.simps [of n])
  have "real n + 1 \<le> 2 ^ bit_length n"
    using bit_length_upper [of n]
    by (metis Suc_leI of_nat_Suc of_nat_le_iff of_nat_numeral of_nat_power add.commute)
  with n(3) have "y \<le> 2 ^ bit_length n" by simp
  then have "1 / 2 ^ bit_length n \<le> 1 / y"
    using y by (intro divide_left_mono) simp_all
  then have lo: "2 powi exponent a \<le> a"
    using e a by (simp add: power_int_minus inverse_eq_divide)
  have "(2::real) ^ (bit_length n - 1) \<le> real n"
    using bit_length_lower [OF n(1)] by (metis of_nat_le_iff of_nat_numeral of_nat_power)
  with n(2) have "2 ^ (bit_length n - 1) < y" by linarith
  then have "1 / y < 1 / 2 ^ (bit_length n - 1)"
    using y by (intro divide_strict_left_mono) (simp_all add: mult_pos_pos)
  moreover have "(2::real) powi (- int (bit_length n) + 1) = 1 / 2 ^ (bit_length n - 1)"
    using bl
    by (cases "bit_length n")
      (simp_all add: power_int_def inverse_eq_divide nat_add_distrib power_divide)
  ultimately have "a < 2 powi (exponent a + 1)" using e a by simp
  with lo show ?thesis by simp
qed

lemma power2_int_less_imp_less:
  assumes "(2::real) powi m < 2 powi n"
  shows "m < n"
proof (rule ccontr)
  assume "\<not> m < n"
  then have "n \<le> m" by simp
  then have "(2::real) powi n \<le> 2 powi m" by (intro power_int_increasing) simp_all
  with assms show False by simp
qed

lemma exponent_unique:
  assumes "2 powi k \<le> a" "a < 2 powi (k + 1)"
  shows "exponent a = k"
proof -
  have "0 < (2::real) powi k" by simp
  with assms(1) have pos: "0 < a" by linarith
  from exponent_bounds [OF pos] have b: "2 powi exponent a \<le> a" "a < 2 powi (exponent a + 1)"
    by simp_all
  have "(2::real) powi k < 2 powi (exponent a + 1)" using assms(1) b(2) by simp
  then have 1: "k < exponent a + 1" by (rule power2_int_less_imp_less)
  have "(2::real) powi exponent a < 2 powi (k + 1)" using assms(2) b(1) by simp
  then have 2: "exponent a < k + 1" by (rule power2_int_less_imp_less)
  from 1 2 show ?thesis by simp
qed

lemma round_half_even_of_int: "round_half_even (of_int i) = i"
  by (simp add: round_half_even_def)

lemma round_half_even_error: "\<bar>of_int (round_half_even t) - t\<bar> \<le> 1 / 2"
  unfolding round_half_even_def Let_def by (auto; linarith)

text \<open>A magnitude on the grid of the doubles is not moved by the rounding.\<close>

lemma round_mag_exact:
  assumes a: "a = of_nat m * 2 powi k" and m: "0 < m" "m < 2 ^ 53" and k: "- 1074 \<le> k"
  shows "round_mag a = a"
proof -
  have pos: "0 < a" using a m(1) by simp
  define e where "e = max (exponent a - 52) (- 1074)"
  have "a < 2 ^ 53 * 2 powi k"
    unfolding a using m(2)
    by (intro mult_strict_right_mono) (simp_all add: of_nat_less_numeral_power_cancel_iff)
  also have "\<dots> = 2 powi (53 + k)"
    by (simp add: power_int_add)
  finally have "2 powi exponent a < (2::real) powi (53 + k)"
    using exponent_bounds [OF pos] by simp
  then have "exponent a < 53 + k" by (rule power2_int_less_imp_less)
  with k have ek: "e \<le> k" by (simp add: e_def)
  then have "(2::real) powi k = 2 powi (k - e) * 2 powi e"
    by (simp flip: power_int_add)
  moreover from ek have "(2::real) powi (k - e) = of_int (2 ^ nat (k - e))"
    by (simp add: power_int_def)
  ultimately have q: "a / 2 powi e = of_int (int m * 2 ^ nat (k - e))"
    unfolding a by simp
  have "round_mag a = of_int (round_half_even (a / 2 powi e)) * 2 powi e"
    using pos by (simp add: round_mag_def e_def Let_def)
  also have "\<dots> = of_int (int m * 2 ^ nat (k - e)) * 2 powi e"
    unfolding q round_half_even_of_int ..
  also have "\<dots> = a / 2 powi e * 2 powi e"
    unfolding q ..
  also have "\<dots> = a" by simp
  finally show ?thesis .
qed

lemma round_double_exact:
  assumes "\<bar>x\<bar> = of_nat m * 2 powi k" "m < 2 ^ 53" "- 1074 \<le> k" "\<bar>x\<bar> < 2 ^ 1024"
  shows "round_double x = Finite x"
proof (cases "m = 0")
  case True
  with assms(1) have "x = 0" by simp
  then show ?thesis by (simp add: round_double_def round_mag_def)
next
  case False
  with assms have "round_mag \<bar>x\<bar> = \<bar>x\<bar>"
    by (intro round_mag_exact [of _ m k]) simp_all
  with assms(4) show ?thesis
    by (simp add: round_double_def Let_def)
qed

text \<open>
  The form in which the constants of the program are checked: \<open>x\<close> is a multiple of
  \<open>2 ^ - n\<close> with fewer than 53 binary digits.
\<close>

lemma round_double_grid:
  assumes "\<bar>x\<bar> * 2 ^ n < 2 ^ 53" "of_int \<lfloor>x * 2 ^ n\<rfloor> = x * 2 ^ n" "n \<le> 1074"
  shows "round_double x = Finite x"
proof -
  define m where "m = nat \<bar>\<lfloor>x * 2 ^ n\<rfloor>\<bar>"
  have "real m = \<bar>of_int \<lfloor>x * 2 ^ n\<rfloor>\<bar>"
    by (simp add: m_def)
  also have "\<dots> = \<bar>x\<bar> * 2 ^ n"
    unfolding assms(2) by (simp add: abs_mult)
  finally have rm: "real m = \<bar>x\<bar> * 2 ^ n" .
  then have 1: "\<bar>x\<bar> = of_nat m * 2 powi (- int n)"
    by (simp add: power_int_minus field_simps)
  from rm assms(1) have "real m < 2 ^ 53" by simp
  then have 2: "m < 2 ^ 53"
    by (simp add: of_nat_less_numeral_power_cancel_iff)
  have "\<bar>x\<bar> \<le> \<bar>x\<bar> * 2 ^ n"
    by (simp add: mult_le_cancel_left1)
  moreover have "(2::real) ^ 53 < 2 ^ 1024"
    by (intro power_strict_increasing) simp_all
  ultimately have 3: "\<bar>x\<bar> < 2 ^ 1024"
    using assms(1) by linarith
  from assms(3) have 4: "- 1074 \<le> - int n" by simp
  from round_double_exact [OF 1 2 4 3] show ?thesis .
qed

lemma round_mag_normal:
  assumes "2 powi k \<le> a" "a < 2 powi (k + 1)" "- 1022 \<le> k"
  shows "round_mag a = of_int (round_half_even (a / 2 powi (k - 52))) * 2 powi (k - 52)"
proof -
  have "0 < (2::real) powi k" by simp
  with assms(1) have pos: "0 < a" by linarith
  have "exponent a = k" using assms(1,2) by (rule exponent_unique)
  with assms(3) have "max (exponent a - 52) (- 1074) = k - 52" by simp
  with pos show ?thesis by (simp add: round_mag_def Let_def)
qed


lemma round_mag_below:
  assumes "2 powi k \<le> a" "a < 2 powi (k + 1)" "- 1022 \<le> k"
  shows "round_mag a \<le> 2 powi (k + 1)"
proof -
  let ?t = "a / 2 powi (k - 52)"
  have r: "round_mag a = of_int (round_half_even ?t) * 2 powi (k - 52)"
    using assms by (rule round_mag_normal)
  have "?t < 2 powi (k + 1) / 2 powi (k - 52)"
    using assms(2) by (simp add: divide_strict_right_mono)
  also have "\<dots> = 2 ^ 53" by (simp flip: power_int_diff)
  finally have "?t < 2 ^ 53" .
  moreover have "of_int (round_half_even ?t) \<le> ?t + 1 / 2"
    using round_half_even_error [of ?t] by linarith
  ultimately have "of_int (round_half_even ?t) < (2::real) ^ 53 + 1 / 2" by linarith
  then have "real_of_int (round_half_even ?t) < of_int (2 ^ 53 + 1)" by simp
  then have "round_half_even ?t < 2 ^ 53 + 1" by (simp only: of_int_less_iff)
  then have "round_half_even ?t \<le> 2 ^ 53" by simp
  then have "real_of_int (round_half_even ?t) \<le> of_int (2 ^ 53)" by (simp only: of_int_le_iff)
  then have "of_int (round_half_even ?t) \<le> (2::real) ^ 53" by simp
  then have "round_mag a \<le> 2 ^ 53 * 2 powi (k - 52)"
    unfolding r by (intro mult_right_mono) simp_all
  also have "\<dots> = 2 powi (k + 1)"
    by (simp add: power_int_diff power_int_add)
  finally show ?thesis .
qed

text \<open>How a product that is not a double is evaluated: its exponent \<open>k\<close> given, the rounding is one division.\<close>

lemma round_double_normal:
  assumes "2 powi k \<le> \<bar>x\<bar>" "\<bar>x\<bar> < 2 powi (k + 1)" "- 1022 \<le> k" "k \<le> 1022"
  shows "round_double x =
    Finite (sgn x * (of_int (round_half_even (\<bar>x\<bar> / 2 powi (k - 52))) * 2 powi (k - 52)))"
proof -
  have r: "round_mag \<bar>x\<bar> =
      of_int (round_half_even (\<bar>x\<bar> / 2 powi (k - 52))) * 2 powi (k - 52)"
    using assms(1-3) by (rule round_mag_normal)
  have "round_mag \<bar>x\<bar> \<le> 2 powi (k + 1)"
    using assms(1-3) by (rule round_mag_below)
  also have "\<dots> \<le> 2 powi 1023"
    using assms(4) by (intro power_int_increasing) simp_all
  also have "\<dots> < 2 ^ 1024" by simp
  finally have fin: "\<not> 2 ^ 1024 \<le> round_mag \<bar>x\<bar>" by simp
  show ?thesis
    using fin r round_half_even_of_int [of 0]
    by (simp add: round_double_def Let_def sgn_real_def)
qed






text \<open>
  The conversion of an int rounds: \<^verbatim>\<open>float(2**53 + 1)\<close> is \<^verbatim>\<open>9007199254740992.0\<close>, the
  tie going to the even neighbour.
\<close>

lemma int_conversion_rounds: "to_float (2 ^ 53 + 1) = Finite (2 ^ 53)"
proof -
  have "round_double (2 ^ 53 + 1) =
    Finite (sgn (2 ^ 53 + 1 :: real) *
      (of_int (round_half_even (\<bar>2 ^ 53 + 1\<bar> / 2 powi (53 - 52))) * 2 powi (53 - 52)))"
    by (rule round_double_normal) simp_all
  also have "\<dots> = Finite (2 ^ 53)"
    by (simp add: round_half_even_def Let_def)
  finally show ?thesis by (simp add: to_float_def)
qed

text \<open>The constants of the program and of the scenarios are doubles.\<close>

lemma double_consts:
  "round_double 1 = Finite 1"
  "round_double 2 = Finite 2"
  "round_double 5 = Finite 5"
  "round_double 6 = Finite 6"
  "round_double 7 = Finite 7"
  "round_double 48 = Finite 48"
  "round_double 150 = Finite 150"
  "round_double (25 / 8) = Finite (25 / 8)"
  "round_double (25 / 4) = Finite (25 / 4)"
  "round_double (25 / 2) = Finite (25 / 2)"
  "round_double (75 / 4) = Finite (75 / 4)"
  "round_double (125 / 8) = Finite (125 / 8)"
  "round_double (175 / 8) = Finite (175 / 8)"
  by (rule round_double_grid [of _ 3]; simp)+

text \<open>An int of fewer than 54 binary digits converts to itself, without an exception.\<close>

lemma small_int_converts:
  assumes "\<bar>i\<bar> < 2 ^ 53"
  shows "to_float i = Finite (of_int i) \<and> \<not> int_too_large i"
proof -
  from assms have "\<bar>real_of_int i\<bar> < of_int (2 ^ 53)"
    by (metis of_int_abs of_int_less_iff)
  then have 1: "\<bar>real_of_int i\<bar> * 2 ^ 0 < 2 ^ 53" by simp
  have "round_double (of_int i) = Finite (of_int i)"
    by (rule round_double_grid [OF 1]) simp_all
  then show ?thesis
    by (auto simp: to_float_def int_too_large_def round_double_def Let_def split: if_splits)
qed

lemma to_float_small [simp]: "\<bar>i\<bar> < 2 ^ 53 \<Longrightarrow> to_float i = Finite (of_int i)"
  by (simp add: small_int_converts)

lemma int_fits_small [simp]: "\<bar>i\<bar> < 2 ^ 53 \<Longrightarrow> \<not> int_too_large i"
  by (simp add: small_int_converts)

section \<open>Facts about the program\<close>




lemma scale_tuple_among_several:
  "scale [Tuple xs, v] (Some (Num (Float f))) s = Inl TypeError"
  by (simp add: scale_def tuple_of_def)

lemma figma_scaling: "num_truediv (PInt 300) (PInt 96) = PFloat (300 / 96)"
  by (simp add: double_consts)

lemma get_rc_params_scaler:
  "snd (get_rc_params d) = (\<lambda>vs. scale vs (Some (Num (factor_of d))))"
  unfolding get_rc_params_def Let_def figma_scaling factor_of_def by simp

lemma scaler_at_one:
  "snd (get_rc_params d) [Num (PFloat 1)] s = Inr (Num (factor_of d))"
  unfolding get_rc_params_scaler by (simp add: scale_def factor_of_def double_consts)

lemma rc_context_eq:
  "rc_context params body s =
     (case body (s\<lparr>rcParams := rcParams s ++ map_of params\<rparr>) of
        (r, s2) \<Rightarrow> (r, s2\<lparr>rcParams := rcParams s\<rparr>))"
  by (simp add: rc_context_def Let_def split: prod.splits sum.splits)

text \<open>
  The whole scoped statement in one equation: the block runs on the state with the
  factor published and the settings overridden, and both are put back afterwards,
  whatever the block's outcome.
\<close>

lemma destination_eq:
  "destination d body s =
     (case body (s\<lparr>scaling_ctx := Some (Num (factor_of d)),
                    rcParams := rcParams s ++ map_of (fst (get_rc_params d))\<rparr>) of
        (r, s2) \<Rightarrow> (r, s2\<lparr>scaling_ctx := scaling_ctx s, rcParams := rcParams s\<rparr>))"
proof -
  let ?s1 = "s\<lparr>scaling_ctx := Some (Num (factor_of d)),
                rcParams := rcParams s ++ map_of (fst (get_rc_params d))\<rparr>"
  obtain r s2 where b: "body ?s1 = (r, s2)"
    by (cases "body ?s1")
  have rc: "rc_context (fst (get_rc_params d)) body (s\<lparr>scaling_ctx := Some (Num (factor_of d))\<rparr>)
              = (r, s2\<lparr>rcParams := rcParams s\<rparr>)"
    using b by (simp add: rc_context_eq)
  show ?thesis
    by (cases r)
      (simp_all add: destination_def case_prod_beta scaler_at_one ctx_set_def ctx_reset_def rc b)
qed

lemma destination_state: "snd (destination d body s) = s"
  by (simp add: destination_eq split: prod.splits)

text \<open>
  The double nearest to one tenth, which is what Python's literal \<^verbatim>\<open>0.1\<close> denotes, and
  its products with 3 and with 3.125 as Python computes them
  (\<^verbatim>\<open>0.30000000000000004\<close> and \<^verbatim>\<open>0.3125\<close>).
\<close>

lemma tenth_is_double:
  "round_double (3602879701896397 / 2 ^ 55) = Finite (3602879701896397 / 2 ^ 55)"
  by (rule round_double_grid [of _ 55]) simp_all



section \<open>Claims about \<^verbatim>\<open>scale\<close>\<close>






text \<open>
  C5. Calling \<^verbatim>\<open>scale(a, b, c, scaling_factor=f)\<close> gives the same result as calling
  \<^verbatim>\<open>scale((a, b, c), scaling_factor=f)\<close>, with or without an explicit factor; for
  ints, and for finite floats, both are the tuple of the three products.
\<close>

theorem scale_positional_same_as_tuple:
  "scale [a, b, c] sf s = scale [Tuple [a, b, c]] sf s \<and>
   scale [Num (PInt x), Num (PInt y), Num (PInt z)] (Some (Num (PInt f))) s =
     Inr (Tuple [Num (PInt (x * f)), Num (PInt (y * f)), Num (PInt (z * f))]) \<and>
   scale [Tuple [Num (PInt x), Num (PInt y), Num (PInt z)]] (Some (Num (PInt f))) s =
     Inr (Tuple [Num (PInt (x * f)), Num (PInt (y * f)), Num (PInt (z * f))]) \<and>
   scale [Num (PFloat u), Num (PFloat v), Num (PFloat w)] (Some (Num (PFloat g))) s =
     Inr (Tuple [Num (Float (round_double (u * g))), Num (Float (round_double (v * g))),
                 Num (Float (round_double (w * g)))]) \<and>
   scale [Tuple [Num (PFloat u), Num (PFloat v), Num (PFloat w)]] (Some (Num (PFloat g))) s =
     Inr (Tuple [Num (Float (round_double (u * g))), Num (Float (round_double (v * g))),
                 Num (Float (round_double (w * g)))])"
  by (simp add: scale_def tuple_of_def)

text \<open>
  C10. Calling \<^verbatim>\<open>scale\<close> with no positional argument does not fail: for every factor,
  and also when the factor is left out, the result is the empty tuple.
\<close>

theorem scale_no_arguments:
  "scale [] (Some f) s = Inr (Tuple []) \<and> scale [] None s = Inr (Tuple [])"
  by (simp add: scale_def tuple_of_def)

section \<open>Claims about \<^verbatim>\<open>get_rc_params\<close>\<close>

text \<open>
  C1. For every destination name, \<open>get_rc_params\<close> returns a pair (no name is rejected),
  and the factor its scaler applies, read as \<open>destination\<close> reads it by calling
  \<^verbatim>\<open>scaler(1.0)\<close>, is the float \<open>300 / 96 = 3.125\<close> exactly when the name is
  \<^verbatim>\<open>"figma"\<close> and the float \<open>1.0\<close> exactly for every other name.
\<close>

theorem get_rc_params_factor:
  "snd (get_rc_params d) [Num (PFloat 1)] s =
     Inr (Num (PFloat (if d = ''figma'' then 300 / 96 else 1))) \<and>
   (snd (get_rc_params d) [Num (PFloat 1)] s = Inr (Num (PFloat (300 / 96)))) = (d = ''figma'') \<and>
   (snd (get_rc_params d) [Num (PFloat 1)] s = Inr (Num (PFloat 1))) = (d \<noteq> ''figma'') \<and>
   (300 / 96 :: real) = 3.125"
  by (simp add: scaler_at_one factor_of_def)

text \<open>
  C2. In the mapping that \<open>get_rc_params\<close> returns for \<^verbatim>\<open>"figma"\<close>, \<^verbatim>\<open>font.size\<close> is
  \<open>6 * 300 / 96\<close> (18.75), \<^verbatim>\<open>figure.dpi\<close> is \<open>150 / (300 / 96)\<close> (48), and
  \<^verbatim>\<open>savefig.dpi\<close> is the int 300; \<^verbatim>\<open>savefig.dpi\<close> is 300 for every destination name.
  No key is written twice in the dictionary, so the first item of a key is its only one.
\<close>

theorem get_rc_params_figma_settings:
  "map_of (fst (get_rc_params ''figma'')) ''font.size'' = Some (RcNum (PFloat (6 * 300 / 96))) \<and>
   map_of (fst (get_rc_params ''figma'')) ''figure.dpi'' = Some (RcNum (PFloat (150 / (300 / 96)))) \<and>
   map_of (fst (get_rc_params ''figma'')) ''savefig.dpi'' = Some (RcNum (PInt 300)) \<and>
   map_of (fst (get_rc_params d)) ''savefig.dpi'' = Some (RcNum (PInt 300)) \<and>
   distinct (map fst (fst (get_rc_params d))) \<and>
   (6 * 300 / 96 :: real) = 18.75 \<and> (150 / (300 / 96) :: real) = 48"
  by (simp add: get_rc_params_def Let_def double_consts)



section \<open>Claims about \<^verbatim>\<open>destination\<close>\<close>

text \<open>
  C6. Round trip of the scoped context, from a state in which the context variable has
  never been set: inside \<^verbatim>\<open>with destination("figma")\<close>, \<^verbatim>\<open>scale(2.0)\<close> with no explicit
  factor returns \<open>2.0 * 300 / 96 = 6.25\<close>, and the statement leaves the state as it
  found it; after the scope, whatever block ran in it, \<^verbatim>\<open>scale(2.0)\<close> returns \<open>2.0\<close>
  and the ambient factor reads as the default \<open>1.0\<close>.
\<close>

theorem destination_round_trip:
  "destination ''figma'' (scale_block (PFloat 2)) \<lparr>scaling_ctx = None, rcParams = m\<rparr> =
     (Inr (Inr (Num (PFloat 6.25))), \<lparr>scaling_ctx = None, rcParams = m\<rparr>) \<and>
   scale [Num (PFloat 2)] None
     (snd (destination ''figma'' body \<lparr>scaling_ctx = None, rcParams = m\<rparr>)) =
     Inr (Num (PFloat 2)) \<and>
   ctx_get (snd (destination ''figma'' body \<lparr>scaling_ctx = None, rcParams = m\<rparr>)) =
     Num (PFloat 1) \<and>
   (2 * 300 / 96 :: real) = 6.25"
proof -
  have inside:
    "destination ''figma'' (scale_block (PFloat 2)) \<lparr>scaling_ctx = None, rcParams = m\<rparr> =
       (Inr (Inr (Num (PFloat 6.25))), \<lparr>scaling_ctx = None, rcParams = m\<rparr>)"
    by (simp add: destination_eq scale_block_def scale_def ctx_get_def factor_of_def double_consts)
  have after:
    "scale [Num (PFloat 2)] None
       (snd (destination ''figma'' body \<lparr>scaling_ctx = None, rcParams = m\<rparr>)) =
       Inr (Num (PFloat 2))"
    by (simp add: destination_state scale_def ctx_get_def double_consts)
  have ambient:
    "ctx_get (snd (destination ''figma'' body \<lparr>scaling_ctx = None, rcParams = m\<rparr>)) =
       Num (PFloat 1)"
    by (simp add: destination_state ctx_get_def)
  from inside after ambient show ?thesis by simp
qed

text \<open>
  C7. Nested scopes restore like a stack, from a state in which the context variable
  has never been set: with \<^verbatim>\<open>"figma"\<close> entered and \<^verbatim>\<open>"default"\<close> entered inside it,
  \<^verbatim>\<open>scale(1.0)\<close> returns \<open>1.0\<close> in the inner scope and \<open>300 / 96\<close> after the inner scope
  has exited; after the outer scope has exited the state is the initial one, in which
  \<^verbatim>\<open>scale(1.0)\<close> returns \<open>1.0\<close>. The exit of an inner scope, for any destination and
  any block, leaves the state of the outer \<^verbatim>\<open>"figma"\<close> scope as it was: its factor and
  its settings are not clobbered.
\<close>

theorem destination_nested:
  "destination ''figma'' nested_block \<lparr>scaling_ctx = None, rcParams = m\<rparr> =
     (Inr (Inr (Num (PFloat 1)), Inr (Num (PFloat (300 / 96)))),
      \<lparr>scaling_ctx = None, rcParams = m\<rparr>) \<and>
   scale [Num (PFloat 1)] None
     (snd (destination ''figma'' nested_block \<lparr>scaling_ctx = None, rcParams = m\<rparr>)) =
     Inr (Num (PFloat 1)) \<and>
   snd (destination d inner
          \<lparr>scaling_ctx = Some (Num (PFloat (300 / 96))),
             rcParams = m ++ map_of (fst (get_rc_params ''figma''))\<rparr>) =
     \<lparr>scaling_ctx = Some (Num (PFloat (300 / 96))),
        rcParams = m ++ map_of (fst (get_rc_params ''figma''))\<rparr>"
proof -
  have run:
    "destination ''figma'' nested_block \<lparr>scaling_ctx = None, rcParams = m\<rparr> =
       (Inr (Inr (Num (PFloat 1)), Inr (Num (PFloat (300 / 96)))),
        \<lparr>scaling_ctx = None, rcParams = m\<rparr>)"
    by (simp add: destination_eq nested_block_def scale_block_def scale_def ctx_get_def
        factor_of_def double_consts)
  have after:
    "scale [Num (PFloat 1)] None
       (snd (destination ''figma'' nested_block \<lparr>scaling_ctx = None, rcParams = m\<rparr>)) =
       Inr (Num (PFloat 1))"
    by (simp add: destination_state scale_def ctx_get_def double_consts)
  from run after show ?thesis by (simp add: destination_state)
qed

text \<open>
  C8. If the caller's block, started in the state that \<open>destination\<close> sets up, lets an
  exception \<open>e\<close> propagate, then the scoped statement ends with that exception and both
  the context variable and \<^verbatim>\<open>rcParams\<close> hold what they held before the scope was
  entered, whatever the block did to them. The two are restored on every exit path: the
  same holds of the state after any block \<open>body'\<close>, whatever its outcome.
\<close>

theorem destination_restores_on_exception:
  assumes "body (s\<lparr>scaling_ctx := Some (Num (PFloat (if d = ''figma'' then 300 / 96 else 1))),
                     rcParams := rcParams s ++ map_of (fst (get_rc_params d))\<rparr>) = (Inl e, s2)"
  shows "fst (destination d body s) = Inl e \<and>
         scaling_ctx (snd (destination d body s)) = scaling_ctx s \<and>
         rcParams (snd (destination d body s)) = rcParams s \<and>
         scaling_ctx (snd (destination d body' s)) = scaling_ctx s \<and>
         rcParams (snd (destination d body' s)) = rcParams s"
proof -
  have "factor_of d = PFloat (if d = ''figma'' then 300 / 96 else 1)"
    by (simp add: factor_of_def)
  with assms have "fst (destination d body s) = Inl e"
    by (simp add: destination_eq)
  then show ?thesis
    by (simp add: destination_state)
qed

theorem destination_restores_on_exception_witness:
  "fst (destination ''figma'' clobbering_block
          \<lparr>scaling_ctx = Some (Num (PFloat 2)), rcParams = [''font.size'' \<mapsto> RcNum (PInt 10)]\<rparr>) =
     Inl (Exception ''boom'') \<and>
   scaling_ctx (snd (destination ''figma'' clobbering_block
          \<lparr>scaling_ctx = Some (Num (PFloat 2)), rcParams = [''font.size'' \<mapsto> RcNum (PInt 10)]\<rparr>)) =
     Some (Num (PFloat 2)) \<and>
   rcParams (snd (destination ''figma'' clobbering_block
          \<lparr>scaling_ctx = Some (Num (PFloat 2)), rcParams = [''font.size'' \<mapsto> RcNum (PInt 10)]\<rparr>))
     ''font.size'' = Some (RcNum (PInt 10))"
proof -
  let ?s = "\<lparr>scaling_ctx = Some (Num (PFloat 2)), rcParams = [''font.size'' \<mapsto> RcNum (PInt 10)]\<rparr>"
  let ?s1 = "?s\<lparr>scaling_ctx := Some (Num (PFloat (if ''figma'' = ''figma'' then 300 / 96 else 1))),
                 rcParams := rcParams ?s ++ map_of (fst (get_rc_params ''figma''))\<rparr>"
  have raised:
    "clobbering_block ?s1 =
       (Inl (Exception ''boom''),
        ?s1\<lparr>scaling_ctx := Some (Num (PInt 7)), rcParams := Map.empty\<rparr>)"
    by (simp only: clobbering_block_def)
  from destination_restores_on_exception
         [where body = clobbering_block and body' = clobbering_block and s = "?s"
             and d = "''figma''", OF raised]
  show ?thesis
    by simp
qed

end
